theory Spec2Isabelle
  imports Main "HOL-Library.Word"
begin

section \<open>NATS notification core of the account server (server/core/nats.go)\<close>

subsection \<open>Values of the Go program\<close>

text \<open>
  A Go \<^verbatim>\<open>[]byte\<close> and a Go \<^verbatim>\<open>string\<close> are both byte sequences, and the conversion
  \<^verbatim>\<open>string(jwtBytes)\<close> copies the bytes unchanged, so both are \<^typ>\<open>string\<close> here.
  An \<^verbatim>\<open>error\<close> value is \<open>Some e\<close>, the nil error is \<open>None\<close>; a pointer that may be nil
  is an option as well.
\<close>

type_synonym bytes = string

datatype error = Err string

text \<open>\<^verbatim>\<open>*nats.Conn\<close>: only the identity of the handle matters to this file.\<close>

datatype Conn = Conn nat

text \<open>\<^verbatim>\<open>time.Duration\<close> is an int64 count of nanoseconds; Go's \<^verbatim>\<open>int\<close> is taken as 64 bits wide.\<close>

type_synonym Duration = "64 word"

definition Millisecond :: Duration where
  "Millisecond = 1000000"

definition Hour :: Duration where
  "Hour = 3600000000000"

text \<open>
  \<^verbatim>\<open>time.Time\<close>: an instant, as a number of nanoseconds on an unbounded axis;
  \<^verbatim>\<open>t.Add(d)\<close> moves it by the signed duration.
\<close>

type_synonym Time = int

definition Add :: "Time \<Rightarrow> Duration \<Rightarrow> Time" where
  "Add t d = t + sint d"

datatype Timer = Timer Duration

text \<open>\<^verbatim>\<open>jwt.ClaimsData\<close>, embedded in account and activation claims; only \<^verbatim>\<open>Subject\<close> is read.\<close>

record ClaimsData =
  Subject :: string

type_synonym AccountClaims = ClaimsData
type_synonym ActivationClaims = ClaimsData

text \<open>\<^verbatim>\<open>nats.Msg\<close>.\<close>

record Msg =
  msg_Subject :: string
  Data :: bytes

text \<open>The part of the configuration that \<^verbatim>\<open>connectToNATS\<close> reads (\<^verbatim>\<open>server.config.NATS\<close>).\<close>

record TLSConf =
  Root :: string
  Cert :: string
  Key :: string

record NATSConfig =
  Servers :: "string list"
  MaxReconnects :: "64 word"
  ReconnectWait :: "64 word"
  ConnectTimeout :: "64 word"
  TLS :: TLSConf
  UserCredentials :: string

record ServerConfig =
  NATS :: NATSConfig

text \<open>
  The fields of \<^verbatim>\<open>AccountServer\<close> that nats.go reads or writes. The struct is declared
  in another file; the fields are taken from their uses. The claim store behind
  \<^verbatim>\<open>server.jwtStore\<close> is held as its contents, a map from identifier to payload.
\<close>

record AccountServer =
  running :: bool
  nats :: "Conn option"
  natsTimer :: "Timer option"
  primary :: string
  config :: ServerConfig
  jwtStore :: "string \<rightharpoonup> string"
  validUntil :: "string \<rightharpoonup> Time"

subsection \<open>Calls that leave the server\<close>

text \<open>
  Every call nats.go makes to a collaborator (logger, bus client, claim store, timers,
  goroutines, the process) is recorded, in program order, as an effect. A function of the
  model returns the effects of one execution next to its result and the new server state.
\<close>

datatype level = Noticef | Warnf | Errorf | Debugf

datatype logarg = ArgString string | ArgInt "64 word" | ArgError error

datatype Option =
    nats_MaxReconnects "64 word"
  | nats_ReconnectWait Duration
  | nats_Timeout Duration
  | nats_ErrorHandler
  | nats_DiscoveredServersHandler
  | nats_DisconnectHandler
  | nats_ReconnectHandler
  | nats_ClosedHandler
  | nats_RootCAs string
  | nats_ClientCert string string
  | nats_UserCredentials string

datatype MsgHandler = AccountNotificationHandler | ActivationNotificationHandler

text \<open>The two \<^verbatim>\<open>go func() { ... }()\<close> statements of the file.\<close>

datatype goroutine = StopAndExit | RetryConnect

datatype effect =
    Log level string "logarg list"
  | nats_Connect string "Option list"
  | Subscribe "Conn option" string MsgHandler
  | Publish Conn string bytes
  | jwtStore_Save string string
  | time_NewTimer Duration
  | Go goroutine
  | Close Conn
  | os_Exit int

text \<open>
  What the collaborators answer. The decoders, \<^verbatim>\<open>HashID\<close> and \<^verbatim>\<open>ShortKey\<close> are
  functions of their arguments; \<^verbatim>\<open>Publish\<close>, \<^verbatim>\<open>nats.Connect\<close> and \<^verbatim>\<open>Save\<close> answer
  with the error the environment chooses for this call, and \<^verbatim>\<open>time.Now()\<close> with the
  clock reading of this call. Go functions returning \<^verbatim>\<open>(value, error)\<close> return a pair.
\<close>

record ext =
  ShortKey :: "string \<Rightarrow> string"
  Publish_result :: "Conn \<Rightarrow> string \<Rightarrow> bytes \<Rightarrow> error option"
  Connect_result :: "string \<Rightarrow> Option list \<Rightarrow> Conn option \<times> error option"
  DecodeAccountClaims :: "string \<Rightarrow> AccountClaims option \<times> error option"
  DecodeActivationClaims :: "string \<Rightarrow> ActivationClaims option \<times> error option"
  HashID :: "ActivationClaims \<Rightarrow> string \<times> error option"
  Save_result :: "string \<Rightarrow> string \<Rightarrow> error option"
  Now :: Time

subsection \<open>Library functions on strings\<close>

text \<open>
  \<^verbatim>\<open>fmt.Sprintf\<close> for formats whose only verb is \<^verbatim>\<open>%s\<close>, with string operands: each
  \<^verbatim>\<open>%s\<close> is replaced by the next operand, which is not scanned again. A verb without
  operand prints \<^verbatim>\<open>%!s(MISSING)\<close>, operands left over are reported at the end.
\<close>

fun extra_operands :: "string list \<Rightarrow> string" where
  "extra_operands [] = []"
| "extra_operands [a] = ''string='' @ a"
| "extra_operands (a # b # as) = ''string='' @ a @ '', '' @ extra_operands (b # as)"

fun Sprintf :: "string \<Rightarrow> string list \<Rightarrow> string" where
  "Sprintf [] [] = []"
| "Sprintf [] (a # as) = ''%!(EXTRA '' @ extra_operands (a # as) @ '')''"
| "Sprintf [c] args = c # Sprintf [] args"
| "Sprintf (c # d # fs) args =
     (if c = CHR ''%'' \<and> d = CHR ''s''
      then (case args of
              [] \<Rightarrow> ''%!s(MISSING)'' @ Sprintf fs []
            | a # as \<Rightarrow> a @ Sprintf fs as)
      else c # Sprintf (d # fs) args)"

text \<open>
  \<^verbatim>\<open>strings.Replace(s, old, new, -1)\<close> for a non-empty \<^verbatim>\<open>old\<close>: every non-overlapping
  occurrence, from the left, is replaced. (For an empty \<^verbatim>\<open>old\<close> Go inserts \<^verbatim>\<open>new\<close>
  around every character; nats.go never passes one, and the model returns \<open>s\<close> there.)
\<close>

function Replace :: "string \<Rightarrow> string \<Rightarrow> string \<Rightarrow> string" where
  "Replace s old new =
     (if s = [] \<or> old = [] then s
      else if take (length old) s = old then new @ Replace (drop (length old) s) old new
      else hd s # Replace (tl s) old new)"
  by pat_completeness auto
termination
  by (relation "measure (\<lambda>(s, old, new). length s)") auto

declare Replace.simps [simp del]

text \<open>\<^verbatim>\<open>strings.Join\<close>.\<close>

fun Join :: "string list \<Rightarrow> string \<Rightarrow> string" where
  "Join [] sep = []"
| "Join [a] sep = a"
| "Join (a # b # as) sep = a @ sep @ Join (b # as) sep"

subsection \<open>Constants\<close>

definition accountNotificationFormat :: string where
  "accountNotificationFormat = ''$SYS.ACCOUNT.%s.CLAIMS.UPDATE''"

definition activationNotificationFormat :: string where
  "activationNotificationFormat = ''$SYS.ACCOUNT.%s.CLAIMS.ACTIVATE.%s''"

subsection \<open>Publishing\<close>

definition sendAccountNotification ::
  "ext \<Rightarrow> AccountServer \<Rightarrow> AccountClaims \<Rightarrow> bytes \<Rightarrow> error option \<times> effect list" where
  "sendAccountNotification X server claim theJWT =
     (let pubKey = Subject claim in
      case nats server of
        None \<Rightarrow>
          (None, [Log Noticef ''skipping notification for %s, no NATS configured''
                    [ArgString (ShortKey X pubKey)]])
      | Some nc \<Rightarrow>
          (let subject = Sprintf accountNotificationFormat [pubKey]
           in (Publish_result X nc subject theJWT, [Publish nc subject theJWT])))"

definition sendActivationNotification ::
  "ext \<Rightarrow> AccountServer \<Rightarrow> string \<Rightarrow> string \<Rightarrow> bytes \<Rightarrow> error option \<times> effect list" where
  "sendActivationNotification X server hash account theJWT =
     (case nats server of
        None \<Rightarrow>
          (None, [Log Noticef ''skipping activation notification for %s, no NATS configured''
                    [ArgString (ShortKey X hash)]])
      | Some nc \<Rightarrow>
          (let subject = Sprintf activationNotificationFormat [account, hash]
           in (Publish_result X nc subject theJWT, [Publish nc subject theJWT])))"

subsection \<open>The claim store\<close>

text \<open>
  Modelled from the spec: the claim store's \<^verbatim>\<open>Save\<close> (the store lives outside nats.go).
  The spec gives it as a key-value put/get abstraction with
  \<^verbatim>\<open>save(identifier, rawPayload) -> error\<close>: a save that reports no error puts the payload
  under the identifier; a save that reports an error is taken to leave the contents as
  they were. The first argument is the error this call reports.
\<close>

definition Save ::
  "error option \<Rightarrow> (string \<rightharpoonup> string) \<Rightarrow> string \<Rightarrow> string
     \<Rightarrow> error option \<times> (string \<rightharpoonup> string)" where
  "Save outcome store k v =
     (case outcome of
        None \<Rightarrow> (None, store(k \<mapsto> v))
      | Some e \<Rightarrow> (Some e, store))"

subsection \<open>Handling inbound notifications\<close>

definition handleAccountNotification ::
  "ext \<Rightarrow> AccountServer \<Rightarrow> Msg \<Rightarrow> AccountServer \<times> effect list" where
  "handleAccountNotification X server msg =
     (let jwtBytes = Data msg;
          theJWT = jwtBytes
      in case DecodeAccountClaims X theJWT of
           (Some claim, None) \<Rightarrow>
             (let pubKey = Subject claim;
                  (err, store) = Save (Save_result X pubKey theJWT) (jwtStore server) pubKey theJWT;
                  server = server\<lparr>jwtStore := store\<rparr>
              in if err \<noteq> None then (server, [jwtStore_Save pubKey theJWT])
                 else (server\<lparr>validUntil := (validUntil server)(pubKey \<mapsto> Add (Now X) Hour)\<rparr>,
                       [jwtStore_Save pubKey theJWT]))
         | _ \<Rightarrow> (server, []))"

definition handleActivationNotification ::
  "ext \<Rightarrow> AccountServer \<Rightarrow> Msg \<Rightarrow> AccountServer \<times> effect list" where
  "handleActivationNotification X server msg =
     (let jwtBytes = Data msg;
          theJWT = jwtBytes
      in case DecodeActivationClaims X theJWT of
           (Some claim, None) \<Rightarrow>
             (case HashID X claim of
                (hash, Some e) \<Rightarrow>
                  (server, [Log Errorf
                     ''unable to calculate hash id from activation token in notification'' []])
              | (hash, None) \<Rightarrow>
                  (let (err, store) = Save (Save_result X hash theJWT) (jwtStore server) hash theJWT;
                       server = server\<lparr>jwtStore := store\<rparr>
                   in if err \<noteq> None
                      then (server, [jwtStore_Save hash theJWT,
                              Log Errorf ''unable to save activation token in notification, %s''
                                [ArgString hash]])
                      else (server\<lparr>validUntil := (validUntil server)(hash \<mapsto> Add (Now X) Hour)\<rparr>,
                            [jwtStore_Save hash theJWT])))
         | _ \<Rightarrow> (server, []))"

subsection \<open>Lifecycle helpers declared outside nats.go\<close>

text \<open>
  Modelled from the spec: \<^verbatim>\<open>checkRunning\<close>, which nats.go calls and another file
  defines. The spec has the callers act "if the server is still marked running": it reads
  the \<^verbatim>\<open>running\<close> flag (under the state lock).
\<close>

definition checkRunning :: "AccountServer \<Rightarrow> bool" where
  "checkRunning server = running server"

text \<open>
  Modelled from the spec: \<^verbatim>\<open>Stop\<close>, which nats.go calls and another file defines. The
  spec: it "marks \<^verbatim>\<open>running = false\<close> under the lock, closes the connection handle if
  present", and a pending retry timer is left to fire and re-check \<^verbatim>\<open>running\<close>. It "must
  be idempotent": a second call leaves the state of the first.
\<close>

definition Stop :: "AccountServer \<Rightarrow> AccountServer \<times> effect list" where
  "Stop server =
     (server\<lparr>running := False\<rparr>,
      case nats server of None \<Rightarrow> [] | Some nc \<Rightarrow> [Close nc])"

subsection \<open>Connecting\<close>

definition natsClosed :: "AccountServer \<Rightarrow> effect list" where
  "natsClosed server =
     (if checkRunning server
      then [Log Errorf ''nats connection closed, shutting down bridge'' [], Go StopAndExit]
      else [])"

definition connect_options :: "NATSConfig \<Rightarrow> Option list" where
  "connect_options cfg =
     [nats_MaxReconnects (MaxReconnects cfg),
      nats_ReconnectWait (ReconnectWait cfg * Millisecond),
      nats_Timeout (ConnectTimeout cfg * Millisecond),
      nats_ErrorHandler,
      nats_DiscoveredServersHandler,
      nats_DisconnectHandler,
      nats_ReconnectHandler,
      nats_ClosedHandler]
     @ (if Root (TLS cfg) \<noteq> [] then [nats_RootCAs (Root (TLS cfg))] else [])
     @ (if Cert (TLS cfg) \<noteq> []
        then [nats_ClientCert (Cert (TLS cfg)) (Key (TLS cfg))] else [])
     @ (if UserCredentials cfg \<noteq> []
        then [nats_UserCredentials (UserCredentials cfg)] else [])"

text \<open>The caller holds the state lock, so one call is one atomic step on the server state.\<close>

definition connectToNATS ::
  "ext \<Rightarrow> AccountServer \<Rightarrow> error option \<times> AccountServer \<times> effect list" where
  "connectToNATS X server =
     (if \<not> running server then (None, server, [])
      else
        let cfg = NATS (config server) in
        if length (Servers cfg) = 0
        then (None, server,
              [Log Noticef
                 ''NATS is not configured, server will not fire notifications on update'' []])
        else
          let options = connect_options cfg;
              url = Join (Servers cfg) '','';
              before = [Log Noticef ''connecting to NATS for notifications'' [],
                        nats_Connect url options]
          in case Connect_result X url options of
               (nc, Some err) \<Rightarrow>
                 (let reconnectWait = ReconnectWait cfg;
                      d = reconnectWait * Millisecond
                  in (None, server\<lparr>natsTimer := Some (Timer d)\<rparr>,
                      before @
                      [Log Errorf ''failed to connect to NATS, %v'' [ArgError err],
                       Log Errorf ''will try to connect again in %d milliseconds''
                         [ArgInt reconnectWait],
                       time_NewTimer d,
                       Go RetryConnect]))
             | (nc, None) \<Rightarrow>
                 (None, server\<lparr>nats := nc\<rparr>,
                  before @
                  (if primary server \<noteq> []
                   then [Subscribe nc (Replace accountNotificationFormat ''%s'' ''*'')
                           AccountNotificationHandler,
                         Subscribe nc (Replace activationNotificationFormat ''%s'' ''*'')
                           ActivationNotificationHandler]
                   else [])))"

definition getNatsConnection :: "AccountServer \<Rightarrow> Conn option" where
  "getNatsConnection server = nats server"

subsection \<open>The goroutines, statement by statement\<close>

text \<open>
  A goroutine in flight is the statement it runs next. \<^verbatim>\<open>natsClosed\<close> starts
  \<^verbatim>\<open>go func() { server.Stop(); os.Exit(-1) }()\<close>; a failed connect starts
  \<^verbatim>\<open>go func() { <-server.natsTimer.C; server.natsTimer = nil;
  if server.checkRunning() { server.Lock(); server.connectToNATS(); server.Unlock() } }()\<close>.
  \<^verbatim>\<open>Stop\<close>, \<^verbatim>\<open>checkRunning\<close> and the locked \<^verbatim>\<open>connectToNATS\<close> hold the state lock, so each
  is one step; other code may run between two steps.
\<close>

datatype pc =
    at_Stop
  | at_Exit
  | at_Timer
  | at_checkRunning
  | at_connectToNATS

fun entry :: "goroutine \<Rightarrow> pc" where
  "entry StopAndExit = at_Stop"
| "entry RetryConnect = at_Timer"

fun step_goroutine ::
  "ext \<Rightarrow> pc \<Rightarrow> AccountServer \<Rightarrow> pc option \<times> AccountServer \<times> effect list" where
  "step_goroutine X at_Stop server =
     (let (server, es) = Stop server in (Some at_Exit, server, es))"
| "step_goroutine X at_Exit server = (None, server, [os_Exit (- 1)])"
| "step_goroutine X at_Timer server =
     (Some at_checkRunning, server\<lparr>natsTimer := None\<rparr>, [])"
| "step_goroutine X at_checkRunning server =
     (if checkRunning server then (Some at_connectToNATS, server, []) else (None, server, []))"
| "step_goroutine X at_connectToNATS server =
     (let (err, server, es) = connectToNATS X server in (None, server, es))"

subsection \<open>The process: callbacks, calls and goroutines interleaved\<close>

text \<open>
  The process is the server state, the goroutines in flight, every effect so far, and
  whether \<^verbatim>\<open>os.Exit\<close> has been called: the process is gone then, and nothing runs any
  more. A schedule is a list of actions, each with the answers of the collaborators
  at that moment: the bus client invokes the closed callback or delivers a message to a
  subscription handler, the application calls \<^verbatim>\<open>connectToNATS\<close> (holding the lock) or
  \<^verbatim>\<open>Stop\<close>, or the goroutine at a position in the pool runs its next statement. A
  message handler touches only the claim store and the cache, which nothing else in
  nats.go reads or writes, so it is taken as one step.
\<close>

record process =
  srv :: AccountServer
  pool :: "pc list"
  trace :: "effect list"
  exited :: bool

datatype action =
    Callback_natsClosed
  | Callback_message MsgHandler Msg
  | Call_connectToNATS
  | Call_Stop
  | Schedule nat

fun spawned :: "effect list \<Rightarrow> pc list" where
  "spawned [] = []"
| "spawned (Go g # es) = entry g # spawned es"
| "spawned (e # es) = spawned es"

fun is_Exit :: "effect \<Rightarrow> bool" where
  "is_Exit (os_Exit code) = True"
| "is_Exit e = False"

fun is_Connect :: "effect \<Rightarrow> bool" where
  "is_Connect (nats_Connect url options) = True"
| "is_Connect e = False"

fun is_NewTimer :: "effect \<Rightarrow> bool" where
  "is_NewTimer (time_NewTimer d) = True"
| "is_NewTimer e = False"

fun is_Go :: "effect \<Rightarrow> bool" where
  "is_Go (Go g) = True"
| "is_Go e = False"

fun is_Subscribe :: "effect \<Rightarrow> bool" where
  "is_Subscribe (Subscribe nc subject cb) = True"
| "is_Subscribe e = False"

definition step_process :: "ext \<times> action \<Rightarrow> process \<Rightarrow> process" where
  "step_process xa p =
     (if exited p then p
      else case xa of
        (X, Callback_natsClosed) \<Rightarrow>
          (let es = natsClosed (srv p)
           in p\<lparr>pool := pool p @ spawned es, trace := trace p @ es\<rparr>)
      | (X, Callback_message AccountNotificationHandler msg) \<Rightarrow>
          (let (server, es) = handleAccountNotification X (srv p) msg
           in p\<lparr>srv := server, trace := trace p @ es\<rparr>)
      | (X, Callback_message ActivationNotificationHandler msg) \<Rightarrow>
          (let (server, es) = handleActivationNotification X (srv p) msg
           in p\<lparr>srv := server, trace := trace p @ es\<rparr>)
      | (X, Call_connectToNATS) \<Rightarrow>
          (let (err, server, es) = connectToNATS X (srv p)
           in p\<lparr>srv := server, pool := pool p @ spawned es, trace := trace p @ es\<rparr>)
      | (X, Call_Stop) \<Rightarrow>
          (let (server, es) = Stop (srv p)
           in p\<lparr>srv := server, trace := trace p @ es\<rparr>)
      | (X, Schedule i) \<Rightarrow>
          (if i < length (pool p)
           then
             let (next, server, es) = step_goroutine X (pool p ! i) (srv p);
                 rest = (case next of
                           None \<Rightarrow> take i (pool p) @ drop (Suc i) (pool p)
                         | Some q \<Rightarrow> (pool p)[i := q])
             in p\<lparr>srv := server, pool := rest @ spawned es, trace := trace p @ es,
                  exited := list_ex is_Exit es\<rparr>
           else p))"

fun run_process :: "(ext \<times> action) list \<Rightarrow> process \<Rightarrow> process" where
  "run_process [] p = p"
| "run_process (xa # sched) p = run_process sched (step_process xa p)"

text \<open>The delivery of a message whose payload the decoder of its handler rejects.\<close>

fun decode_fails :: "ext \<times> action \<Rightarrow> bool" where
  "decode_fails (X, Callback_message AccountNotificationHandler msg) =
     (case DecodeAccountClaims X (Data msg) of (claim, err) \<Rightarrow> err \<noteq> None \<or> claim = None)"
| "decode_fails (X, Callback_message ActivationNotificationHandler msg) =
     (case DecodeActivationClaims X (Data msg) of (claim, err) \<Rightarrow> err \<noteq> None \<or> claim = None)"
| "decode_fails (X, a) = False"

subsection \<open>Concrete inputs\<close>

definition claimA :: AccountClaims where
  "claimA = \<lparr>Subject = ''A''\<rparr>"

definition ext_ok :: ext where
  "ext_ok =
     \<lparr>ShortKey = take 12,
      Publish_result = (\<lambda>nc subject payload. None),
      Connect_result = (\<lambda>url options. (Some (Conn 1), None)),
      DecodeAccountClaims =
        (\<lambda>j. if j = ''jwt-A'' then (Some claimA, None) else (None, Some (Err ''invalid jwt''))),
      DecodeActivationClaims =
        (\<lambda>j. if j = ''jwt-act'' then (Some \<lparr>Subject = ''B''\<rparr>, None)
             else (None, Some (Err ''invalid jwt''))),
      HashID = (\<lambda>c. (''H'', None)),
      Save_result = (\<lambda>k v. None),
      Now = 1000\<rparr>"

definition ext_save_fails :: ext where
  "ext_save_fails = ext_ok\<lparr>Save_result := (\<lambda>k v. Some (Err ''read only''))\<rparr>"

definition ext_connect_fails :: ext where
  "ext_connect_fails =
     ext_ok\<lparr>Connect_result := (\<lambda>url options. (None, Some (Err ''no servers available'')))\<rparr>"

definition ext_publish_fails :: ext where
  "ext_publish_fails =
     ext_ok\<lparr>Publish_result := (\<lambda>nc subject payload. Some (Err ''connection closed''))\<rparr>"

definition config0 :: NATSConfig where
  "config0 =
     \<lparr>Servers = [''nats://localhost:4222''],
      MaxReconnects = 5,
      ReconnectWait = 2000,
      ConnectTimeout = 5000,
      TLS = \<lparr>Root = [], Cert = [], Key = []\<rparr>,
      UserCredentials = []\<rparr>"

definition server0 :: AccountServer where
  "server0 =
     \<lparr>running = True,
      nats = None,
      natsTimer = None,
      primary = ''primary'',
      config = \<lparr>NATS = config0\<rparr>,
      jwtStore = Map.empty,
      validUntil = Map.empty\<rparr>"

definition server_connected :: AccountServer where
  "server_connected = server0\<lparr>nats := Some (Conn 1)\<rparr>"

definition server_unconfigured :: AccountServer where
  "server_unconfigured = server0\<lparr>config := \<lparr>NATS = config0\<lparr>Servers := []\<rparr>\<rparr>\<rparr>"

definition msgA :: Msg where
  "msgA = \<lparr>msg_Subject = ''$SYS.ACCOUNT.A.CLAIMS.UPDATE'', Data = ''jwt-A''\<rparr>"

definition msg_act :: Msg where
  "msg_act = \<lparr>msg_Subject = ''$SYS.ACCOUNT.A.CLAIMS.ACTIVATE.H'', Data = ''jwt-act''\<rparr>"

definition msg_garbage :: Msg where
  "msg_garbage = \<lparr>msg_Subject = ''$SYS.ACCOUNT.A.CLAIMS.UPDATE'', Data = ''not a jwt''\<rparr>"

definition process0 :: process where
  "process0 = \<lparr>srv = server_connected, pool = [], trace = [], exited = False\<rparr>"

text \<open>A process whose first connect has just failed: the timer is stored, the retry goroutine waits.\<close>

definition process_retrying :: process where
  "process_retrying =
     \<lparr>srv = server0\<lparr>natsTimer := Some (Timer 2000000000)\<rparr>,
      pool = [at_Timer], trace = [], exited = False\<rparr>"

section \<open>Properties\<close>

subsection \<open>Subjects and durations\<close>

lemma sint_Hour: "sint Hour = 3600000000000"
  by (simp add: Hour_def)

lemma Add_Hour: "Add t Hour = t + 3600000000000"
  by (simp add: Add_def sint_Hour)

lemma Sprintf_account:
  "Sprintf accountNotificationFormat [a] = ''$SYS.ACCOUNT.'' @ a @ ''.CLAIMS.UPDATE''"
  by (simp add: accountNotificationFormat_def)

lemma Sprintf_activation:
  "Sprintf activationNotificationFormat [a, h] = ''$SYS.ACCOUNT.'' @ a @ ''.CLAIMS.ACTIVATE.'' @ h"
  by (simp add: activationNotificationFormat_def)

lemma Replace_account:
  "Replace accountNotificationFormat ''%s'' ''*'' = ''$SYS.ACCOUNT.*.CLAIMS.UPDATE''"
  by (simp add: accountNotificationFormat_def Replace.simps)

lemma Replace_activation:
  "Replace activationNotificationFormat ''%s'' ''*'' = ''$SYS.ACCOUNT.*.CLAIMS.ACTIVATE.*''"
  by (simp add: activationNotificationFormat_def Replace.simps)

subsection \<open>Publishing\<close>

text \<open>
  C4 (publish contract). For every call of \<^verbatim>\<open>sendAccountNotification\<close> or
  \<^verbatim>\<open>sendActivationNotification\<close>: when the stored connection handle is nil the call logs
  one notice, publishes nothing and returns the nil error; otherwise its only effect is
  one \<^verbatim>\<open>Publish\<close> on the subject made from the fixed template, and it returns what that
  \<^verbatim>\<open>Publish\<close> returned, unchanged (no second attempt).
\<close>

theorem publish_contract:
  "(nats server = None \<longrightarrow>
      sendAccountNotification X server claim theJWT =
        (None, [Log Noticef ''skipping notification for %s, no NATS configured''
                  [ArgString (ShortKey X (Subject claim))]])
      \<and> sendActivationNotification X server hash account theJWT =
        (None, [Log Noticef ''skipping activation notification for %s, no NATS configured''
                  [ArgString (ShortKey X hash)]]))
   \<and> (\<forall>nc. nats server = Some nc \<longrightarrow>
      sendAccountNotification X server claim theJWT =
        (Publish_result X nc (Sprintf accountNotificationFormat [Subject claim]) theJWT,
         [Publish nc (Sprintf accountNotificationFormat [Subject claim]) theJWT])
      \<and> sendActivationNotification X server hash account theJWT =
        (Publish_result X nc (Sprintf activationNotificationFormat [account, hash]) theJWT,
         [Publish nc (Sprintf activationNotificationFormat [account, hash]) theJWT]))"
  by (simp add: sendAccountNotification_def sendActivationNotification_def Let_def)

theorem publish_contract_witness:
  "nats server0 = None
   \<and> sendAccountNotification ext_ok server0 claimA ''jwt-A'' =
       (None, [Log Noticef ''skipping notification for %s, no NATS configured'' [ArgString ''A'']])
   \<and> sendActivationNotification ext_ok server0 ''H'' ''A'' ''jwt-A'' =
       (None, [Log Noticef ''skipping activation notification for %s, no NATS configured''
                 [ArgString ''H'']])
   \<and> nats server_connected = Some (Conn 1)
   \<and> sendAccountNotification ext_publish_fails server_connected claimA ''jwt-A'' =
       (Some (Err ''connection closed''),
        [Publish (Conn 1) ''$SYS.ACCOUNT.A.CLAIMS.UPDATE'' ''jwt-A''])
   \<and> sendActivationNotification ext_publish_fails server_connected ''H'' ''A'' ''jwt-A'' =
       (Some (Err ''connection closed''),
        [Publish (Conn 1) ''$SYS.ACCOUNT.A.CLAIMS.ACTIVATE.H'' ''jwt-A''])"
proof -
  have off: "nats server0 = None"
    by (simp add: server0_def)
  have on: "nats server_connected = Some (Conn 1)"
    by (simp add: server_connected_def)
  from off publish_contract [where server = server0 and X = ext_ok and claim = claimA
      and theJWT = "''jwt-A''" and hash = "''H''" and account = "''A''"]
    on publish_contract [where server = server_connected and X = ext_publish_fails
      and claim = claimA and theJWT = "''jwt-A''" and hash = "''H''" and account = "''A''"]
  show ?thesis
    by (simp add: ext_ok_def ext_publish_fails_def claimA_def Sprintf_account Sprintf_activation)
qed

subsection \<open>Subjects\<close>

text \<open>
  C2, as the spec states it, fails: it writes the two templates without the leading
  dollar sign. The constants of
  the code start with \<^verbatim>\<open>$SYS\<close>: the account update for account \<^verbatim>\<open>A\<close> is published on
  \<^verbatim>\<open>$SYS.ACCOUNT.A.CLAIMS.UPDATE\<close>, which is not what substituting \<^verbatim>\<open>A\<close> into
  \<^verbatim>\<open>SYS.ACCOUNT.%s.CLAIMS.UPDATE\<close> gives.
\<close>

theorem subject_templates_counterexample:
  "snd (sendAccountNotification ext_ok server_connected claimA ''jwt-A'') =
     [Publish (Conn 1) ''$SYS.ACCOUNT.A.CLAIMS.UPDATE'' ''jwt-A'']
   \<and> ''$SYS.ACCOUNT.A.CLAIMS.UPDATE'' \<noteq> Sprintf ''SYS.ACCOUNT.%s.CLAIMS.UPDATE'' [Subject claimA]"
  by (simp add: sendAccountNotification_def server_connected_def claimA_def Sprintf_account Let_def)

text \<open>
  C2 (subject templates), as the code has them. The formats are
  \<^verbatim>\<open>$SYS.ACCOUNT.%s.CLAIMS.UPDATE\<close> and \<^verbatim>\<open>$SYS.ACCOUNT.%s.CLAIMS.ACTIVATE.%s\<close>. For every
  account identifier \<open>a\<close> the account update is published on the first with \<open>a\<close>
  substituted, and for every \<open>a\<close> and content hash \<open>h\<close> the activation on the second
  with \<open>(a, h)\<close> substituted. A connect that succeeds on a primary instance subscribes,
  in this order, to \<^verbatim>\<open>$SYS.ACCOUNT.*.CLAIMS.UPDATE\<close> with the account handler and to
  \<^verbatim>\<open>$SYS.ACCOUNT.*.CLAIMS.ACTIVATE.*\<close> with the activation handler.
\<close>

theorem subject_templates:
  "accountNotificationFormat = ''$SYS.ACCOUNT.%s.CLAIMS.UPDATE''
   \<and> activationNotificationFormat = ''$SYS.ACCOUNT.%s.CLAIMS.ACTIVATE.%s''
   \<and> Sprintf accountNotificationFormat [a] = ''$SYS.ACCOUNT.'' @ a @ ''.CLAIMS.UPDATE''
   \<and> Sprintf activationNotificationFormat [a, h] = ''$SYS.ACCOUNT.'' @ a @ ''.CLAIMS.ACTIVATE.'' @ h
   \<and> (nats server = Some nc \<longrightarrow>
        snd (sendAccountNotification X server claim theJWT) =
          [Publish nc (Sprintf accountNotificationFormat [Subject claim]) theJWT]
        \<and> snd (sendActivationNotification X server h a theJWT) =
          [Publish nc (Sprintf activationNotificationFormat [a, h]) theJWT])
   \<and> (running server \<and> Servers (NATS (config server)) \<noteq> [] \<and> primary server \<noteq> []
        \<and> Connect_result X (Join (Servers (NATS (config server))) '','')
             (connect_options (NATS (config server))) = (c, None) \<longrightarrow>
        filter is_Subscribe (snd (snd (connectToNATS X server))) =
          [Subscribe c ''$SYS.ACCOUNT.*.CLAIMS.UPDATE'' AccountNotificationHandler,
           Subscribe c ''$SYS.ACCOUNT.*.CLAIMS.ACTIVATE.*'' ActivationNotificationHandler])"
proof -
  have formats: "accountNotificationFormat = ''$SYS.ACCOUNT.%s.CLAIMS.UPDATE''
      \<and> activationNotificationFormat = ''$SYS.ACCOUNT.%s.CLAIMS.ACTIVATE.%s''"
    by (simp add: accountNotificationFormat_def activationNotificationFormat_def)
  have published: "nats server = Some nc \<longrightarrow>
        snd (sendAccountNotification X server claim theJWT) =
          [Publish nc (Sprintf accountNotificationFormat [Subject claim]) theJWT]
        \<and> snd (sendActivationNotification X server h a theJWT) =
          [Publish nc (Sprintf activationNotificationFormat [a, h]) theJWT]"
    by (simp add: sendAccountNotification_def sendActivationNotification_def Let_def)
  have subscribed: "running server \<and> Servers (NATS (config server)) \<noteq> []
        \<and> primary server \<noteq> []
        \<and> Connect_result X (Join (Servers (NATS (config server))) '','')
             (connect_options (NATS (config server))) = (c, None) \<longrightarrow>
        filter is_Subscribe (snd (snd (connectToNATS X server))) =
          [Subscribe c ''$SYS.ACCOUNT.*.CLAIMS.UPDATE'' AccountNotificationHandler,
           Subscribe c ''$SYS.ACCOUNT.*.CLAIMS.ACTIVATE.*'' ActivationNotificationHandler]"
    by (simp add: connectToNATS_def Let_def Replace_account Replace_activation)
  from formats Sprintf_account [of a] Sprintf_activation [of a h] published subscribed
  show ?thesis by blast
qed


theorem subject_templates_witness:
  "nats server_connected = Some (Conn 1)
   \<and> snd (sendAccountNotification ext_ok server_connected claimA ''jwt-A'') =
       [Publish (Conn 1) ''$SYS.ACCOUNT.A.CLAIMS.UPDATE'' ''jwt-A'']
   \<and> snd (sendActivationNotification ext_ok server_connected ''H'' ''A'' ''jwt-A'') =
       [Publish (Conn 1) ''$SYS.ACCOUNT.A.CLAIMS.ACTIVATE.H'' ''jwt-A'']
   \<and> running server0 \<and> Servers (NATS (config server0)) \<noteq> [] \<and> primary server0 \<noteq> []
   \<and> Connect_result ext_ok (Join (Servers (NATS (config server0))) '','')
        (connect_options (NATS (config server0))) = (Some (Conn 1), None)
   \<and> filter is_Subscribe (snd (snd (connectToNATS ext_ok server0))) =
       [Subscribe (Some (Conn 1)) ''$SYS.ACCOUNT.*.CLAIMS.UPDATE'' AccountNotificationHandler,
        Subscribe (Some (Conn 1)) ''$SYS.ACCOUNT.*.CLAIMS.ACTIVATE.*''
          ActivationNotificationHandler]"
proof -
  have h1: "nats server_connected = Some (Conn 1)"
    by (simp add: server_connected_def)
  have h2: "running server0 \<and> Servers (NATS (config server0)) \<noteq> [] \<and> primary server0 \<noteq> []
     \<and> Connect_result ext_ok (Join (Servers (NATS (config server0))) '','')
          (connect_options (NATS (config server0))) = (Some (Conn 1), None)"
    by (simp add: server0_def config0_def ext_ok_def)
  from h1 subject_templates [where server = server_connected and nc = "Conn 1" and X = ext_ok
      and claim = claimA and theJWT = "''jwt-A''" and h = "''H''" and a = "''A''"]
  have p: "snd (sendAccountNotification ext_ok server_connected claimA ''jwt-A'') =
       [Publish (Conn 1) ''$SYS.ACCOUNT.A.CLAIMS.UPDATE'' ''jwt-A'']
   \<and> snd (sendActivationNotification ext_ok server_connected ''H'' ''A'' ''jwt-A'') =
       [Publish (Conn 1) ''$SYS.ACCOUNT.A.CLAIMS.ACTIVATE.H'' ''jwt-A'']"
    by (simp add: claimA_def)
  from h2 subject_templates [where server = server0 and X = ext_ok and c = "Some (Conn 1)"]
  have s: "filter is_Subscribe (snd (snd (connectToNATS ext_ok server0))) =
       [Subscribe (Some (Conn 1)) ''$SYS.ACCOUNT.*.CLAIMS.UPDATE'' AccountNotificationHandler,
        Subscribe (Some (Conn 1)) ''$SYS.ACCOUNT.*.CLAIMS.ACTIVATE.*''
          ActivationNotificationHandler]"
    by blast
  from h1 h2 p s show ?thesis by blast
qed

subsection \<open>Handling\<close>

text \<open>
  C1 (round trip). Let an account claim have identifier \<open>Subject claim\<close> and payload
  \<open>theJWT\<close>, so that decoding \<open>theJWT\<close> succeeds with a claim of that identifier. With a
  live connection \<^verbatim>\<open>sendAccountNotification\<close> publishes one message, with \<open>theJWT\<close> as
  data; when that message reaches \<^verbatim>\<open>handleAccountNotification\<close> of any server and the
  store write succeeds, the claim store holds exactly \<open>theJWT\<close> under the identifier and
  the cache expiry of the identifier is the handler's clock reading plus one hour
  (3600000000000 nanoseconds); nothing else in the server changes.
\<close>

theorem round_trip:
  assumes "nats sender = Some nc"
    and "DecodeAccountClaims X theJWT = (Some decoded, None)"
    and "Subject decoded = Subject claim"
    and "Save_result X (Subject claim) theJWT = None"
  shows "snd (sendAccountNotification Xs sender claim theJWT) =
           [Publish nc (Sprintf accountNotificationFormat [Subject claim]) theJWT]
     \<and> handleAccountNotification X receiver
           \<lparr>msg_Subject = Sprintf accountNotificationFormat [Subject claim], Data = theJWT\<rparr> =
         (receiver\<lparr>jwtStore := (jwtStore receiver)(Subject claim \<mapsto> theJWT),
                   validUntil := (validUntil receiver)(Subject claim \<mapsto> Now X + 3600000000000)\<rparr>,
          [jwtStore_Save (Subject claim) theJWT])"
  using assms
  by (simp add: sendAccountNotification_def handleAccountNotification_def Save_def Let_def Add_Hour)

theorem round_trip_witness:
  "nats server_connected = Some (Conn 1)
   \<and> DecodeAccountClaims ext_ok ''jwt-A'' = (Some claimA, None)
   \<and> Save_result ext_ok (Subject claimA) ''jwt-A'' = None
   \<and> snd (sendAccountNotification ext_ok server_connected claimA ''jwt-A'') =
        [Publish (Conn 1) ''$SYS.ACCOUNT.A.CLAIMS.UPDATE'' ''jwt-A'']
   \<and> jwtStore (fst (handleAccountNotification ext_ok server0 msgA)) ''A'' = Some ''jwt-A''
   \<and> validUntil (fst (handleAccountNotification ext_ok server0 msgA)) ''A'' = Some 3600000001000"
proof -
  have h1: "nats server_connected = Some (Conn 1)"
    by (simp add: server_connected_def)
  have h2: "DecodeAccountClaims ext_ok ''jwt-A'' = (Some claimA, None)"
    by (simp add: ext_ok_def)
  have h3: "Save_result ext_ok (Subject claimA) ''jwt-A'' = None"
    by (simp add: ext_ok_def)
  have m: "msgA = \<lparr>msg_Subject = Sprintf accountNotificationFormat [Subject claimA], Data = ''jwt-A''\<rparr>"
    by (simp add: msgA_def claimA_def Sprintf_account)
  have n: "Now ext_ok = 1000"
    by (simp add: ext_ok_def)
  from round_trip [OF h1 h2 refl h3, of ext_ok server0] h1 h2 h3
  show ?thesis
    by (simp add: m n) (simp add: claimA_def Sprintf_account)
qed

text \<open>
  C3 (idempotence). Deliver the same account-update message twice, at clock readings
  \<open>Now X1\<close> and then \<open>Now X2\<close>, with the decode and the store write succeeding both
  times. After the second delivery the claim store is the store after the first one and
  holds the payload under the identifier; the cache expiry of the identifier is that of
  the second touch, \<open>Now X2\<close> plus one hour, which is the later of the two expiries when
  the clock has not gone back, and the whole cache is as after the first delivery when
  the two readings coincide. The second delivery takes the same path as the first: its
  only effect is the store write, and it reports no error.
\<close>

theorem redelivery_idempotent:
  assumes "DecodeAccountClaims X1 (Data msg) = (Some claim, None)"
    and "DecodeAccountClaims X2 (Data msg) = (Some claim, None)"
    and "Save_result X1 (Subject claim) (Data msg) = None"
    and "Save_result X2 (Subject claim) (Data msg) = None"
  shows "jwtStore (fst (handleAccountNotification X2
                     (fst (handleAccountNotification X1 server msg)) msg)) =
           jwtStore (fst (handleAccountNotification X1 server msg))
     \<and> jwtStore (fst (handleAccountNotification X2
                     (fst (handleAccountNotification X1 server msg)) msg)) (Subject claim) =
           Some (Data msg)
     \<and> validUntil (fst (handleAccountNotification X2
                     (fst (handleAccountNotification X1 server msg)) msg)) (Subject claim) =
           Some (Now X2 + 3600000000000)
     \<and> (Now X1 \<le> Now X2 \<longrightarrow>
          validUntil (fst (handleAccountNotification X2
                     (fst (handleAccountNotification X1 server msg)) msg)) (Subject claim) =
           Some (max (Now X1 + 3600000000000) (Now X2 + 3600000000000)))
     \<and> (Now X1 = Now X2 \<longrightarrow>
          validUntil (fst (handleAccountNotification X2
                     (fst (handleAccountNotification X1 server msg)) msg)) =
           validUntil (fst (handleAccountNotification X1 server msg)))
     \<and> snd (handleAccountNotification X2 (fst (handleAccountNotification X1 server msg)) msg) =
           [jwtStore_Save (Subject claim) (Data msg)]"
  using assms
  by (simp add: handleAccountNotification_def Save_def Let_def Add_Hour)

theorem redelivery_idempotent_witness:
  "DecodeAccountClaims ext_ok (Data msgA) = (Some claimA, None)
   \<and> Save_result ext_ok (Subject claimA) (Data msgA) = None
   \<and> Now ext_ok \<le> Now (ext_ok\<lparr>Now := 5000\<rparr>)
   \<and> jwtStore (fst (handleAccountNotification (ext_ok\<lparr>Now := 5000\<rparr>)
                     (fst (handleAccountNotification ext_ok server0 msgA)) msgA)) ''A'' =
        Some ''jwt-A''
   \<and> validUntil (fst (handleAccountNotification (ext_ok\<lparr>Now := 5000\<rparr>)
                     (fst (handleAccountNotification ext_ok server0 msgA)) msgA)) ''A'' =
        Some 3600000005000
   \<and> validUntil (fst (handleAccountNotification ext_ok
                     (fst (handleAccountNotification ext_ok server0 msgA)) msgA)) =
        validUntil (fst (handleAccountNotification ext_ok server0 msgA))"
proof -
  have d1: "DecodeAccountClaims ext_ok (Data msgA) = (Some claimA, None)"
    by (simp add: ext_ok_def msgA_def)
  have d2: "DecodeAccountClaims (ext_ok\<lparr>Now := 5000\<rparr>) (Data msgA) = (Some claimA, None)"
    by (simp add: ext_ok_def msgA_def)
  have s1: "Save_result ext_ok (Subject claimA) (Data msgA) = None"
    by (simp add: ext_ok_def)
  have s2: "Save_result (ext_ok\<lparr>Now := 5000\<rparr>) (Subject claimA) (Data msgA) = None"
    by (simp add: ext_ok_def)
  have n: "Now ext_ok = 1000"
    by (simp add: ext_ok_def)
  have a: "Subject claimA = ''A''" "Data msgA = ''jwt-A''"
    by (simp_all add: claimA_def msgA_def)
  from redelivery_idempotent [OF d1 d2 s1 s2, of server0]
  have later: "jwtStore (fst (handleAccountNotification (ext_ok\<lparr>Now := 5000\<rparr>)
                     (fst (handleAccountNotification ext_ok server0 msgA)) msgA)) (Subject claimA) =
        Some (Data msgA)
     \<and> validUntil (fst (handleAccountNotification (ext_ok\<lparr>Now := 5000\<rparr>)
                     (fst (handleAccountNotification ext_ok server0 msgA)) msgA)) (Subject claimA) =
        Some (Now (ext_ok\<lparr>Now := 5000\<rparr>) + 3600000000000)"
    by blast
  from redelivery_idempotent [OF d1 d1 s1 s1, of server0]
  have same: "validUntil (fst (handleAccountNotification ext_ok
                     (fst (handleAccountNotification ext_ok server0 msgA)) msgA)) =
        validUntil (fst (handleAccountNotification ext_ok server0 msgA))"
    by blast
  from later same d1 s1 show ?thesis
    by (simp add: n a)
qed

lemma decode_failure_step: "decode_fails xa \<Longrightarrow> step_process xa p = p"
proof -
  assume f: "decode_fails xa"
  obtain X a where xa: "xa = (X, a)" by (cases xa)
  show ?thesis
  proof (cases a)
    case (Callback_message h msg)
    with f xa show ?thesis
      by (cases h)
        (auto simp add: step_process_def handleAccountNotification_def
          handleActivationNotification_def Let_def split: prod.splits option.splits)
  qed (use f xa in simp_all)
qed

lemma decode_failure_run: "list_all decode_fails sched \<Longrightarrow> run_process sched p = p"
  by (induction sched) (simp_all add: decode_failure_step)

text \<open>
  C5 (decode failures change nothing). For every inbound message, on either subscription,
  whose payload fails to decode (the decoder returns an error, or a nil claim): the handler
  returns with the server as it was, so neither the claim store nor the cache is written,
  and with no effect at all: no store write, no log line, and no call to the bus client
  that could end the subscription. So any sequence of such deliveries leaves the whole
  process as it was, and the next message is handled as if none of them had arrived.
\<close>

theorem decode_failure_dropped:
  "(DecodeAccountClaims X (Data msg) = (claim, err) \<and> (err \<noteq> None \<or> claim = None) \<longrightarrow>
      handleAccountNotification X server msg = (server, []))
   \<and> (DecodeActivationClaims X (Data msg) = (claim, err) \<and> (err \<noteq> None \<or> claim = None) \<longrightarrow>
      handleActivationNotification X server msg = (server, []))
   \<and> (list_all decode_fails sched \<longrightarrow> run_process sched p = p)"
  by (auto simp add: handleAccountNotification_def handleActivationNotification_def Let_def
      decode_failure_run split: option.splits)

theorem decode_failure_dropped_witness:
  "DecodeAccountClaims ext_ok (Data msg_garbage) = (None, Some (Err ''invalid jwt''))
   \<and> handleAccountNotification ext_ok server0 msg_garbage = (server0, [])
   \<and> DecodeActivationClaims ext_ok (Data msg_garbage) = (None, Some (Err ''invalid jwt''))
   \<and> handleActivationNotification ext_ok server0 msg_garbage = (server0, [])
   \<and> list_all decode_fails
        [(ext_ok, Callback_message AccountNotificationHandler msg_garbage),
         (ext_ok, Callback_message ActivationNotificationHandler msg_garbage),
         (ext_ok, Callback_message ActivationNotificationHandler msgA)]
   \<and> run_process
        [(ext_ok, Callback_message AccountNotificationHandler msg_garbage),
         (ext_ok, Callback_message ActivationNotificationHandler msg_garbage),
         (ext_ok, Callback_message ActivationNotificationHandler msgA)] process0 = process0"
proof -
  have d1: "DecodeAccountClaims ext_ok (Data msg_garbage) = (None, Some (Err ''invalid jwt''))"
    by (simp add: ext_ok_def msg_garbage_def)
  have d2: "DecodeActivationClaims ext_ok (Data msg_garbage) = (None, Some (Err ''invalid jwt''))"
    by (simp add: ext_ok_def msg_garbage_def)
  have d3: "list_all decode_fails
        [(ext_ok, Callback_message AccountNotificationHandler msg_garbage),
         (ext_ok, Callback_message ActivationNotificationHandler msg_garbage),
         (ext_ok, Callback_message ActivationNotificationHandler msgA)]"
    by (simp add: ext_ok_def msg_garbage_def msgA_def)
  note t = decode_failure_dropped [where X = ext_ok and msg = msg_garbage and claim = None
      and err = "Some (Err ''invalid jwt'')" and server = server0 and p = process0
      and sched = "[(ext_ok, Callback_message AccountNotificationHandler msg_garbage),
         (ext_ok, Callback_message ActivationNotificationHandler msg_garbage),
         (ext_ok, Callback_message ActivationNotificationHandler msgA)]"]
  from d1 d2 d3 t show ?thesis
    by simp
qed

text \<open>
  C6 (store write failure). The account handler does not do what the claim says. At a
  concrete account update whose store write fails, \<^verbatim>\<open>handleAccountNotification\<close> calls
  \<^verbatim>\<open>Save\<close> once, leaves the cache as it was and returns, and writes no log line; at a
  concrete activation whose store write fails, \<^verbatim>\<open>handleActivationNotification\<close> calls
  \<^verbatim>\<open>Save\<close> once, logs one error, leaves the cache as it was and returns.
\<close>

theorem store_failure_account_not_logged:
  "snd (handleAccountNotification ext_save_fails server0 msgA) =
     [jwtStore_Save ''A'' ''jwt-A'']
   \<and> validUntil (fst (handleAccountNotification ext_save_fails server0 msgA)) =
       validUntil server0
   \<and> snd (handleActivationNotification ext_save_fails server0 msg_act) =
     [jwtStore_Save ''H'' ''jwt-act'',
      Log Errorf ''unable to save activation token in notification, %s'' [ArgString ''H'']]
   \<and> validUntil (fst (handleActivationNotification ext_save_fails server0 msg_act)) =
       validUntil server0"
  by (simp add: handleAccountNotification_def handleActivationNotification_def Save_def Let_def
      ext_save_fails_def ext_ok_def msgA_def msg_act_def claimA_def)

subsection \<open>Connecting\<close>

lemma connectToNATS_stopped: "\<not> running server \<Longrightarrow> connectToNATS X server = (None, server, [])"
  by (simp add: connectToNATS_def)

lemma connectToNATS_nil: "fst (connectToNATS X server) = None"
  by (simp add: connectToNATS_def Let_def split: prod.splits option.splits)

lemma connectToNATS_failed:
  assumes "running server"
    and "Servers (NATS (config server)) \<noteq> []"
    and "Connect_result X (Join (Servers (NATS (config server))) '','')
           (connect_options (NATS (config server))) = (nc, Some e)"
  shows "connectToNATS X server =
     (None,
      server\<lparr>natsTimer := Some (Timer (ReconnectWait (NATS (config server)) * Millisecond))\<rparr>,
      [Log Noticef ''connecting to NATS for notifications'' [],
       nats_Connect (Join (Servers (NATS (config server))) '','')
         (connect_options (NATS (config server))),
       Log Errorf ''failed to connect to NATS, %v'' [ArgError e],
       Log Errorf ''will try to connect again in %d milliseconds''
         [ArgInt (ReconnectWait (NATS (config server)))],
       time_NewTimer (ReconnectWait (NATS (config server)) * Millisecond),
       Go RetryConnect])"
  using assms by (simp add: connectToNATS_def Let_def)

text \<open>
  C7 (no address configured). For every configuration whose server-address list is empty,
  \<^verbatim>\<open>connectToNATS\<close> returns the nil error and leaves the server as it was: the connection
  handle stays unset and no timer is stored. Its only effect, on a running server, is one
  notice in the log: no connect is attempted, no timer is created and no goroutine is
  started.
\<close>

theorem unconfigured_connect_is_noop:
  assumes "Servers (NATS (config server)) = []"
  shows "connectToNATS X server =
           (None, server,
            if running server
            then [Log Noticef
                    ''NATS is not configured, server will not fire notifications on update'' []]
            else [])
     \<and> (nats server = None \<longrightarrow> nats (fst (snd (connectToNATS X server))) = None)
     \<and> natsTimer (fst (snd (connectToNATS X server))) = natsTimer server
     \<and> filter is_Connect (snd (snd (connectToNATS X server))) = []
     \<and> filter is_NewTimer (snd (snd (connectToNATS X server))) = []
     \<and> filter is_Go (snd (snd (connectToNATS X server))) = []"
  using assms by (simp add: connectToNATS_def)

theorem unconfigured_connect_is_noop_witness:
  "Servers (NATS (config server_unconfigured)) = []
   \<and> running server_unconfigured
   \<and> connectToNATS ext_connect_fails server_unconfigured =
       (None, server_unconfigured,
        [Log Noticef ''NATS is not configured, server will not fire notifications on update'' []])
   \<and> nats (fst (snd (connectToNATS ext_connect_fails server_unconfigured))) = None
   \<and> natsTimer (fst (snd (connectToNATS ext_connect_fails server_unconfigured))) = None"
proof -
  have h: "Servers (NATS (config server_unconfigured)) = []"
    by (simp add: server_unconfigured_def)
  have r: "running server_unconfigured" "nats server_unconfigured = None"
    "natsTimer server_unconfigured = None"
    by (simp_all add: server_unconfigured_def server0_def)
  from unconfigured_connect_is_noop [OF h, of ext_connect_fails] h r
  show ?thesis
    by simp
qed

text \<open>
  C10 (connect never reports an error). \<^verbatim>\<open>connectToNATS\<close> returns the nil error on every
  path, whatever the server state and whatever the bus answers. On a server that is not
  running it returns at once: the server is unchanged and there is no effect, so no
  connection is attempted, no handle stored and no retry scheduled. When the bus connect
  fails (on a running server with an address configured) the connect has been attempted
  and the result is still the nil error.
\<close>

theorem connect_returns_nil:
  "fst (connectToNATS X server) = None
   \<and> (\<not> running server \<longrightarrow> connectToNATS X server = (None, server, []))
   \<and> (running server \<and> Servers (NATS (config server)) \<noteq> []
        \<and> Connect_result X (Join (Servers (NATS (config server))) '','')
             (connect_options (NATS (config server))) = (nc, Some e) \<longrightarrow>
        fst (connectToNATS X server) = None
        \<and> filter is_Connect (snd (snd (connectToNATS X server))) =
            [nats_Connect (Join (Servers (NATS (config server))) '','')
               (connect_options (NATS (config server)))]
        \<and> nats (fst (snd (connectToNATS X server))) = nats server)"
proof -
  have failed: "running server \<and> Servers (NATS (config server)) \<noteq> []
        \<and> Connect_result X (Join (Servers (NATS (config server))) '','')
             (connect_options (NATS (config server))) = (nc, Some e) \<longrightarrow>
        fst (connectToNATS X server) = None
        \<and> filter is_Connect (snd (snd (connectToNATS X server))) =
            [nats_Connect (Join (Servers (NATS (config server))) '','')
               (connect_options (NATS (config server)))]
        \<and> nats (fst (snd (connectToNATS X server))) = nats server"
    by (simp add: connectToNATS_failed)
  from connectToNATS_nil [of X server] connectToNATS_stopped [of server X] failed
  show ?thesis by blast
qed

theorem connect_returns_nil_witness:
  "\<not> running (server0\<lparr>running := False\<rparr>)
   \<and> connectToNATS ext_ok (server0\<lparr>running := False\<rparr>) =
       (None, server0\<lparr>running := False\<rparr>, [])
   \<and> running server0 \<and> Servers (NATS (config server0)) \<noteq> []
   \<and> Connect_result ext_connect_fails (Join (Servers (NATS (config server0))) '','')
        (connect_options (NATS (config server0))) = (None, Some (Err ''no servers available''))
   \<and> fst (connectToNATS ext_connect_fails server0) = None
   \<and> filter is_Connect (snd (snd (connectToNATS ext_connect_fails server0))) =
       [nats_Connect ''nats://localhost:4222'' (connect_options config0)]
   \<and> nats (fst (snd (connectToNATS ext_connect_fails server0))) = None"
proof -
  have off: "\<not> running (server0\<lparr>running := False\<rparr>)"
    by simp
  have on: "running server0 \<and> Servers (NATS (config server0)) \<noteq> []
     \<and> Connect_result ext_connect_fails (Join (Servers (NATS (config server0))) '','')
          (connect_options (NATS (config server0))) = (None, Some (Err ''no servers available''))"
    by (simp add: server0_def config0_def ext_connect_fails_def)
  have c: "NATS (config server0) = config0" "nats server0 = None"
    "Join (Servers config0) '','' = ''nats://localhost:4222''"
    by (simp_all add: server0_def config0_def)
  from connect_returns_nil [of ext_ok "server0\<lparr>running := False\<rparr>"] off
  have stopped: "connectToNATS ext_ok (server0\<lparr>running := False\<rparr>) =
       (None, server0\<lparr>running := False\<rparr>, [])"
    by blast
  from connect_returns_nil [of ext_connect_fails server0 None "Err ''no servers available''"] on
  have failed: "fst (connectToNATS ext_connect_fails server0) = None
     \<and> filter is_Connect (snd (snd (connectToNATS ext_connect_fails server0))) =
        [nats_Connect (Join (Servers (NATS (config server0))) '','')
           (connect_options (NATS (config server0)))]
     \<and> nats (fst (snd (connectToNATS ext_connect_fails server0))) = nats server0"
    by blast
  from off on stopped failed show ?thesis
    by (simp add: c)
qed

subsection \<open>Invariants of the process\<close>


lemma Stop_effects:
  "Stop server = (server', es) \<Longrightarrow>
     \<not> running server' \<and> filter is_Exit es = [] \<and> filter is_Go es = []
     \<and> filter is_Connect es = []"
  by (auto simp add: Stop_def split: option.splits)


lemma natsClosed_stopped: "\<not> running server \<Longrightarrow> natsClosed server = []"
  by (simp add: natsClosed_def checkRunning_def)

lemma handleAccountNotification_effects:
  "handleAccountNotification X server msg = (server', es) \<Longrightarrow>
     running server' = running server \<and> filter is_Exit es = [] \<and> filter is_Go es = []
     \<and> filter is_Connect es = []"
  by (auto simp add: handleAccountNotification_def Let_def
      split: prod.splits option.splits if_splits)

lemma handleActivationNotification_effects:
  "handleActivationNotification X server msg = (server', es) \<Longrightarrow>
     running server' = running server \<and> filter is_Exit es = [] \<and> filter is_Go es = []
     \<and> filter is_Connect es = []"
  by (auto simp add: handleActivationNotification_def Let_def
      split: prod.splits option.splits if_splits)


lemma step_goroutine_stopped:
  "\<not> running server \<Longrightarrow> step_goroutine X q server = (next, server', es) \<Longrightarrow>
     \<not> running server' \<and> filter is_Go es = [] \<and> filter is_Connect es = []"
  by (cases q)
    (auto simp add: connectToNATS_stopped checkRunning_def split: prod.splits
      dest: Stop_effects)


lemma step_process_exited: "exited p \<Longrightarrow> step_process xa p = p"
  by (simp add: step_process_def)

lemma run_process_exited: "exited p \<Longrightarrow> run_process sched p = p"
  by (induction sched) (simp_all add: step_process_exited)



lemma step_process_stopped:
  assumes "\<not> running (srv p)"
  shows "\<not> running (srv (step_process xa p))
     \<and> filter is_Go (trace (step_process xa p)) = filter is_Go (trace p)
     \<and> filter is_Connect (trace (step_process xa p)) = filter is_Connect (trace p)"
proof (cases "exited p")
  case True
  with assms show ?thesis by (simp add: step_process_exited)
next
  case False
  obtain X a where xa: "xa = (X, a)" by (cases xa)
  show ?thesis
  proof (cases a)
    case Callback_natsClosed
    with False assms xa show ?thesis
      by (simp add: step_process_def Let_def natsClosed_stopped)
  next
    case (Callback_message h msg)
    show ?thesis
    proof (cases h)
      case AccountNotificationHandler
      obtain server' es where st: "handleAccountNotification X (srv p) msg = (server', es)"
        by (cases "handleAccountNotification X (srv p) msg")
      from handleAccountNotification_effects [OF st] False assms xa Callback_message
        AccountNotificationHandler st
      show ?thesis
        by (simp add: step_process_def)
    next
      case ActivationNotificationHandler
      obtain server' es where st: "handleActivationNotification X (srv p) msg = (server', es)"
        by (cases "handleActivationNotification X (srv p) msg")
      from handleActivationNotification_effects [OF st] False assms xa Callback_message
        ActivationNotificationHandler st
      show ?thesis
        by (simp add: step_process_def)
    qed
  next
    case Call_connectToNATS
    from False assms xa Call_connectToNATS show ?thesis
      by (simp add: step_process_def connectToNATS_stopped)
  next
    case Call_Stop
    obtain server' es where st: "Stop (srv p) = (server', es)"
      by (cases "Stop (srv p)")
    from Stop_effects [OF st] False xa Call_Stop st show ?thesis
      by (simp add: step_process_def)
  next
    case (Schedule i)
    show ?thesis
    proof (cases "i < length (pool p)")
      case outside: False
      with False assms xa Schedule show ?thesis
        by (simp add: step_process_def)
    next
      case True
      obtain nxt server' es where st: "step_goroutine X (pool p ! i) (srv p) = (nxt, server', es)"
        by (cases "step_goroutine X (pool p ! i) (srv p)")
      from step_goroutine_stopped [OF assms st] False xa Schedule True st show ?thesis
        by (simp add: step_process_def Let_def)
    qed
  qed
qed

lemma run_process_stopped:
  "\<not> running (srv p) \<Longrightarrow>
     \<not> running (srv (run_process sched p))
     \<and> filter is_Go (trace (run_process sched p)) = filter is_Go (trace p)
     \<and> filter is_Connect (trace (run_process sched p)) = filter is_Connect (trace p)"
proof (induction sched arbitrary: p)
  case Nil
  then show ?case by simp
next
  case (Cons xa sched)
  from step_process_stopped [OF Cons.prems, of xa]
  have s: "\<not> running (srv (step_process xa p))"
    and g: "filter is_Go (trace (step_process xa p)) = filter is_Go (trace p)"
    and c: "filter is_Connect (trace (step_process xa p)) = filter is_Connect (trace p)"
    by blast+
  from Cons.IH [OF s] g c show ?case
    by simp
qed

subsection \<open>The closed callback\<close>






subsection \<open>Retrying the connect\<close>

text \<open>
  C8 (retry scheduling). A connect that fails (on a running server with an address
  configured) returns the nil error, creates exactly one timer, of \<^verbatim>\<open>ReconnectWait\<close>
  milliseconds, stores it, and starts exactly one goroutine, which waits for that timer.
  When the timer fires on a running server the goroutine calls \<^verbatim>\<open>connectToNATS\<close> (in one
  step, the state lock held) on the server with the timer field cleared; when it fires on
  a server that is not running the goroutine ends after clearing the field, with no effect.
  After a call of \<^verbatim>\<open>Stop\<close>, at every later moment and whatever the interleaving,
  \<^verbatim>\<open>checkRunning\<close> answers false and no further connect is attempted. (How long the
  timer runs is not part of the model: the schedule chooses when it fires.)
\<close>

theorem retry_scheduling:
  "(running server \<and> Servers (NATS (config server)) \<noteq> []
      \<and> Connect_result X (Join (Servers (NATS (config server))) '','')
           (connect_options (NATS (config server))) = (nc, Some e) \<longrightarrow>
      fst (connectToNATS X server) = None
      \<and> filter is_NewTimer (snd (snd (connectToNATS X server))) =
          [time_NewTimer (ReconnectWait (NATS (config server)) * Millisecond)]
      \<and> filter is_Go (snd (snd (connectToNATS X server))) = [Go RetryConnect]
      \<and> spawned (snd (snd (connectToNATS X server))) = [at_Timer]
      \<and> natsTimer (fst (snd (connectToNATS X server))) =
          Some (Timer (ReconnectWait (NATS (config server)) * Millisecond)))
   \<and> (\<not> exited p \<and> running (srv p) \<and> Servers (NATS (config (srv p))) \<noteq> []
      \<and> Connect_result X (Join (Servers (NATS (config (srv p)))) '','')
           (connect_options (NATS (config (srv p)))) = (nc, Some e) \<longrightarrow>
      pool (step_process (X, Call_connectToNATS) p) = pool p @ [at_Timer])
   \<and> (i < length (pool p) \<and> pool p ! i = at_Timer \<and> \<not> exited p \<and> running (srv p) \<longrightarrow>
        trace (run_process [(X1, Schedule i), (X2, Schedule i), (X3, Schedule i)] p) =
          trace p @ snd (snd (connectToNATS X3 ((srv p)\<lparr>natsTimer := None\<rparr>)))
        \<and> srv (run_process [(X1, Schedule i), (X2, Schedule i), (X3, Schedule i)] p) =
          fst (snd (connectToNATS X3 ((srv p)\<lparr>natsTimer := None\<rparr>))))
   \<and> (i < length (pool p) \<and> pool p ! i = at_Timer \<and> \<not> exited p \<and> \<not> running (srv p) \<longrightarrow>
        trace (run_process [(X1, Schedule i), (X2, Schedule i)] p) = trace p
        \<and> srv (run_process [(X1, Schedule i), (X2, Schedule i)] p) =
            (srv p)\<lparr>natsTimer := None\<rparr>
        \<and> pool (run_process [(X1, Schedule i), (X2, Schedule i)] p) =
            take i (pool p) @ drop (Suc i) (pool p))
   \<and> (\<not> exited p \<longrightarrow> \<not> checkRunning (srv (run_process ((X1, Call_Stop) # sched) p)))
   \<and> filter is_Connect (trace (run_process ((X1, Call_Stop) # sched) p)) =
       filter is_Connect (trace p)"
proof -
  have failed: "running server \<and> Servers (NATS (config server)) \<noteq> []
      \<and> Connect_result X (Join (Servers (NATS (config server))) '','')
           (connect_options (NATS (config server))) = (nc, Some e) \<longrightarrow>
      fst (connectToNATS X server) = None
      \<and> filter is_NewTimer (snd (snd (connectToNATS X server))) =
          [time_NewTimer (ReconnectWait (NATS (config server)) * Millisecond)]
      \<and> filter is_Go (snd (snd (connectToNATS X server))) = [Go RetryConnect]
      \<and> spawned (snd (snd (connectToNATS X server))) = [at_Timer]
      \<and> natsTimer (fst (snd (connectToNATS X server))) =
          Some (Timer (ReconnectWait (NATS (config server)) * Millisecond))"
    by (simp add: connectToNATS_failed)
  have started: "\<not> exited p \<and> running (srv p) \<and> Servers (NATS (config (srv p))) \<noteq> []
      \<and> Connect_result X (Join (Servers (NATS (config (srv p)))) '','')
           (connect_options (NATS (config (srv p)))) = (nc, Some e) \<longrightarrow>
      pool (step_process (X, Call_connectToNATS) p) = pool p @ [at_Timer]"
    by (simp add: step_process_def connectToNATS_failed)
  have fires: "i < length (pool p) \<and> pool p ! i = at_Timer \<and> \<not> exited p \<and> running (srv p) \<longrightarrow>
        trace (run_process [(X1, Schedule i), (X2, Schedule i), (X3, Schedule i)] p) =
          trace p @ snd (snd (connectToNATS X3 ((srv p)\<lparr>natsTimer := None\<rparr>)))
        \<and> srv (run_process [(X1, Schedule i), (X2, Schedule i), (X3, Schedule i)] p) =
          fst (snd (connectToNATS X3 ((srv p)\<lparr>natsTimer := None\<rparr>)))"
    by (simp add: step_process_def checkRunning_def Let_def split: prod.splits)
  have idle: "i < length (pool p) \<and> pool p ! i = at_Timer \<and> \<not> exited p \<and> \<not> running (srv p) \<longrightarrow>
        trace (run_process [(X1, Schedule i), (X2, Schedule i)] p) = trace p
        \<and> srv (run_process [(X1, Schedule i), (X2, Schedule i)] p) =
            (srv p)\<lparr>natsTimer := None\<rparr>
        \<and> pool (run_process [(X1, Schedule i), (X2, Schedule i)] p) =
            take i (pool p) @ drop (Suc i) (pool p)"
    by (simp add: step_process_def checkRunning_def Let_def)
  have stopped: "\<not> exited p \<longrightarrow> \<not> checkRunning (srv (run_process ((X1, Call_Stop) # sched) p))"
  proof
    assume "\<not> exited p"
    then have "\<not> running (srv (step_process (X1, Call_Stop) p))"
      by (simp add: step_process_def Stop_def)
    from run_process_stopped [OF this, of sched]
    show "\<not> checkRunning (srv (run_process ((X1, Call_Stop) # sched) p))"
      by (simp add: checkRunning_def)
  qed
  have no_connect: "filter is_Connect (trace (run_process ((X1, Call_Stop) # sched) p)) =
       filter is_Connect (trace p)"
  proof (cases "exited p")
    case True
    then show ?thesis
      by (simp add: step_process_exited run_process_exited)
  next
    case False
    then have s: "\<not> running (srv (step_process (X1, Call_Stop) p))"
      and t: "filter is_Connect (trace (step_process (X1, Call_Stop) p)) =
               filter is_Connect (trace p)"
      by (simp_all add: step_process_def Stop_def split: option.splits)
    from run_process_stopped [OF s, of sched] t show ?thesis
      by simp
  qed
  from failed started fires idle stopped no_connect show ?thesis
    by blast
qed


theorem retry_scheduling_witness:
  "running server0 \<and> Servers (NATS (config server0)) \<noteq> []
   \<and> Connect_result ext_connect_fails (Join (Servers (NATS (config server0))) '','')
        (connect_options (NATS (config server0))) = (None, Some (Err ''no servers available''))
   \<and> fst (connectToNATS ext_connect_fails server0) = None
   \<and> filter is_NewTimer (snd (snd (connectToNATS ext_connect_fails server0))) =
       [time_NewTimer 2000000000]
   \<and> filter is_Go (snd (snd (connectToNATS ext_connect_fails server0))) = [Go RetryConnect]
   \<and> natsTimer (fst (snd (connectToNATS ext_connect_fails server0))) =
       Some (Timer 2000000000)
   \<and> pool (step_process (ext_connect_fails, Call_connectToNATS) (process0\<lparr>srv := server0\<rparr>)) =
       [at_Timer]
   \<and> 0 < length (pool process_retrying) \<and> pool process_retrying ! 0 = at_Timer
   \<and> \<not> exited process_retrying \<and> running (srv process_retrying)
   \<and> filter is_Connect (trace (run_process
         [(ext_ok, Schedule 0), (ext_ok, Schedule 0), (ext_ok, Schedule 0)] process_retrying)) =
       [nats_Connect ''nats://localhost:4222'' (connect_options config0)]
   \<and> \<not> checkRunning (srv (run_process
         [(ext_ok, Call_Stop), (ext_ok, Schedule 0), (ext_ok, Schedule 0), (ext_ok, Schedule 0)]
         process_retrying))
   \<and> filter is_Connect (trace (run_process
         [(ext_ok, Call_Stop), (ext_ok, Schedule 0), (ext_ok, Schedule 0), (ext_ok, Schedule 0)]
         process_retrying)) = []
   \<and> \<not> running (srv (process_retrying\<lparr>srv := server0\<lparr>running := False\<rparr>\<rparr>))
   \<and> trace (run_process [(ext_ok, Schedule 0), (ext_ok, Schedule 0)]
         (process_retrying\<lparr>srv := server0\<lparr>running := False\<rparr>\<rparr>)) = []"
proof -
  have on: "running server0 \<and> Servers (NATS (config server0)) \<noteq> []
     \<and> Connect_result ext_connect_fails (Join (Servers (NATS (config server0))) '','')
          (connect_options (NATS (config server0))) = (None, Some (Err ''no servers available''))"
    by (simp add: server0_def config0_def ext_connect_fails_def)
  have w: "ReconnectWait (NATS (config server0)) * Millisecond = 2000000000"
    by (simp add: server0_def config0_def Millisecond_def)
  have pend: "0 < length (pool process_retrying) \<and> pool process_retrying ! 0 = at_Timer
     \<and> \<not> exited process_retrying \<and> running (srv process_retrying)"
    by (simp add: process_retrying_def server0_def)
  have pend': "0 < length (pool (process_retrying\<lparr>srv := server0\<lparr>running := False\<rparr>\<rparr>))
     \<and> pool (process_retrying\<lparr>srv := server0\<lparr>running := False\<rparr>\<rparr>) ! 0 = at_Timer
     \<and> \<not> exited (process_retrying\<lparr>srv := server0\<lparr>running := False\<rparr>\<rparr>)
     \<and> \<not> running (srv (process_retrying\<lparr>srv := server0\<lparr>running := False\<rparr>\<rparr>))"
    by (simp add: process_retrying_def)
  have t: "trace process_retrying = []"
    "trace (process_retrying\<lparr>srv := server0\<lparr>running := False\<rparr>\<rparr>) = []"
    by (simp_all add: process_retrying_def)
  have c: "filter is_Connect (snd (snd (connectToNATS ext_ok
             ((srv process_retrying)\<lparr>natsTimer := None\<rparr>)))) =
           [nats_Connect ''nats://localhost:4222'' (connect_options config0)]"
    by (simp add: connectToNATS_def process_retrying_def server0_def config0_def ext_ok_def
        Let_def)
  note a = retry_scheduling [where server = server0 and X = ext_connect_fails and nc = None
      and e = "Err ''no servers available''" and p = process_retrying and i = 0
      and ?X1.0 = ext_ok and ?X2.0 = ext_ok and ?X3.0 = ext_ok
      and sched = "[(ext_ok, Schedule 0), (ext_ok, Schedule 0), (ext_ok, Schedule 0)]"]
  note b = retry_scheduling [where p = "process_retrying\<lparr>srv := server0\<lparr>running := False\<rparr>\<rparr>"
      and i = 0 and ?X1.0 = ext_ok and ?X2.0 = ext_ok]
  from a on have failed: "fst (connectToNATS ext_connect_fails server0) = None
      \<and> filter is_NewTimer (snd (snd (connectToNATS ext_connect_fails server0))) =
          [time_NewTimer (ReconnectWait (NATS (config server0)) * Millisecond)]
      \<and> filter is_Go (snd (snd (connectToNATS ext_connect_fails server0))) = [Go RetryConnect]
      \<and> natsTimer (fst (snd (connectToNATS ext_connect_fails server0))) =
          Some (Timer (ReconnectWait (NATS (config server0)) * Millisecond))"
    by blast
  have on': "\<not> exited (process0\<lparr>srv := server0\<rparr>) \<and> running (srv (process0\<lparr>srv := server0\<rparr>))
     \<and> Servers (NATS (config (srv (process0\<lparr>srv := server0\<rparr>)))) \<noteq> []
     \<and> Connect_result ext_connect_fails
          (Join (Servers (NATS (config (srv (process0\<lparr>srv := server0\<rparr>))))) '','')
          (connect_options (NATS (config (srv (process0\<lparr>srv := server0\<rparr>))))) =
        (None, Some (Err ''no servers available''))"
    by (simp add: process0_def server0_def config0_def ext_connect_fails_def)
  from retry_scheduling [where p = "process0\<lparr>srv := server0\<rparr>" and X = ext_connect_fails
      and nc = None and e = "Err ''no servers available''"] on'
  have started: "pool (step_process (ext_connect_fails, Call_connectToNATS)
        (process0\<lparr>srv := server0\<rparr>)) = pool (process0\<lparr>srv := server0\<rparr>) @ [at_Timer]"
    by blast
  have e: "pool (process0\<lparr>srv := server0\<rparr>) = []"
    by (simp add: process0_def)
  from a pend have fires: "trace (run_process
         [(ext_ok, Schedule 0), (ext_ok, Schedule 0), (ext_ok, Schedule 0)] process_retrying) =
       trace process_retrying
       @ snd (snd (connectToNATS ext_ok ((srv process_retrying)\<lparr>natsTimer := None\<rparr>)))"
    by blast
  from a pend have stopped: "\<not> checkRunning (srv (run_process
         [(ext_ok, Call_Stop), (ext_ok, Schedule 0), (ext_ok, Schedule 0), (ext_ok, Schedule 0)]
         process_retrying))
     \<and> filter is_Connect (trace (run_process
         [(ext_ok, Call_Stop), (ext_ok, Schedule 0), (ext_ok, Schedule 0), (ext_ok, Schedule 0)]
         process_retrying)) = filter is_Connect (trace process_retrying)"
    by blast
  from b pend' have idle: "trace (run_process [(ext_ok, Schedule 0), (ext_ok, Schedule 0)]
         (process_retrying\<lparr>srv := server0\<lparr>running := False\<rparr>\<rparr>)) =
       trace (process_retrying\<lparr>srv := server0\<lparr>running := False\<rparr>\<rparr>)"
    by blast
  from on failed started pend fires stopped pend' idle show ?thesis
    by (simp add: w t c e)
qed

end
